theory Spec2Isabelle
  imports Main
begin

section \<open>JavaScript values\<close>

text \<open>
  The validator and the formatter of \<^verbatim>\<open>src/index.js\<close> are written in JavaScript.
  Strings are modelled as \<^typ>\<open>string\<close>: a list of code units below 256; the
  white-space class of a regular expression is cut down to that range accordingly.
  The country, the phone type and the format mode are the strings their documentation
  declares. The phone number is any value, since the code tests its type itself; of a
  value that is not a string the code reads only whether it is truthy, so numbers are
  kept as integers and objects as their identities.
\<close>

datatype js_value =
    JUndefined
  | JNull
  | JBoolean bool
  | JNumber int
  | JString string
  | JObject nat

text \<open>JavaScript's ToBoolean on the values above (\<^verbatim>\<open>!x\<close> is its negation).\<close>

fun truthy :: "js_value \<Rightarrow> bool" where
  "truthy JUndefined = False"
| "truthy JNull = False"
| "truthy (JBoolean b) = b"
| "truthy (JNumber n) = (n \<noteq> 0)"
| "truthy (JString s) = (s \<noteq> [])"
| "truthy (JObject a) = True"

text \<open>\<^verbatim>\<open>a || b\<close>: the left operand when it is truthy, the right operand otherwise.\<close>

definition js_or :: "js_value \<Rightarrow> js_value \<Rightarrow> js_value" where
  "js_or a b = (if truthy a then a else b)"

text \<open>A value thrown by a caller-supplied function.\<close>

datatype fault = Thrown js_value

section \<open>Regular expressions\<close>

text \<open>
  The constructs the patterns of \<^verbatim>\<open>PHONE_PATTERNS\<close> use: a literal text, a character
  range \<^verbatim>\<open>[a-b]\<close>, a character set \<^verbatim>\<open>[abc]\<close>, \<^verbatim>\<open>\d\<close>, \<^verbatim>\<open>\s\<close>, a sequence, an
  alternative \<^verbatim>\<open>a|b\<close>, an option \<^verbatim>\<open>a?\<close> and a counted repetition \<^verbatim>\<open>a{m,n}\<close>
  (\<^verbatim>\<open>a{n}\<close> is \<^verbatim>\<open>a{n,n}\<close>). Groups only bracket; no pattern refers back to one.
\<close>

datatype rx =
    Str string
  | Range char char
  | OneOf string
  | Digit
  | Space
  | Cat "rx list"
  | Alt rx rx
  | Opt rx
  | Repeat nat nat rx

definition in_range :: "char \<Rightarrow> char \<Rightarrow> char \<Rightarrow> bool" where
  "in_range lo hi c = ((of_char lo :: nat) \<le> of_char c \<and> (of_char c :: nat) \<le> of_char hi)"

definition is_digit :: "char \<Rightarrow> bool" where
  "is_digit c = in_range (CHR ''0'') (CHR ''9'') c"

text \<open>
  \<^verbatim>\<open>\s\<close> below 256: tab, line feed, vertical tab, form feed, carriage return, space and
  the no-break space.
\<close>

definition is_space :: "char \<Rightarrow> bool" where
  "is_space c = ((of_char c :: nat) \<in> {9, 10, 11, 12, 13, 32, 160})"

text \<open>One character of a class: the rest of the input after it, if it is there.\<close>

fun one_char :: "(char \<Rightarrow> bool) \<Rightarrow> string \<Rightarrow> string list" where
  "one_char p [] = []"
| "one_char p (c # cs) = (if p c then [cs] else [])"

text \<open>
  \<^verbatim>\<open>a{m,n}\<close> over the matcher \<open>step\<close> of \<^verbatim>\<open>a\<close>: at least \<open>m\<close> and at most \<open>n\<close> rounds,
  the longer attempts first.
\<close>

fun repeat_run :: "nat \<Rightarrow> nat \<Rightarrow> (string \<Rightarrow> string list) \<Rightarrow> string \<Rightarrow> string list" where
  "repeat_run 0 0 step s = [s]"
| "repeat_run 0 (Suc n) step s = concat (map (repeat_run 0 n step) (step s)) @ [s]"
| "repeat_run (Suc m) 0 step s = []"
| "repeat_run (Suc m) (Suc n) step s = concat (map (repeat_run m n step) (step s))"

text \<open>
  The backtracking matcher: \<open>run r s\<close> lists, in the order a backtracking engine tries
  them, what is left of \<open>s\<close> after each way of matching \<open>r\<close> at its start.
\<close>

fun run :: "rx \<Rightarrow> string \<Rightarrow> string list" where
  "run (Str t) s = (if take (length t) s = t then [drop (length t) s] else [])"
| "run (Range lo hi) s = one_char (in_range lo hi) s"
| "run (OneOf cs) s = one_char (\<lambda>c. c \<in> set cs) s"
| "run Digit s = one_char is_digit s"
| "run Space s = one_char is_space s"
| "run (Cat []) s = [s]"
| "run (Cat (r # rs)) s = concat (map (run (Cat rs)) (run r s))"
| "run (Alt a b) s = run a s @ run b s"
| "run (Opt r) s = run r s @ [s]"
| "run (Repeat m n r) s = repeat_run m n (run r) s"

text \<open>
  \<^verbatim>\<open>/^r$/.test(s)\<close> with no flag: some way of matching \<open>r\<close> uses up the whole of \<open>s\<close>.
\<close>

definition test :: "rx \<Rightarrow> string \<Rightarrow> bool" where
  "test r s = ([] \<in> set (run r s))"

section \<open>The pattern registry\<close>

text \<open>
  \<^verbatim>\<open>PHONE_PATTERNS\<close>, pattern by pattern. A country's entry has up to three patterns; one
  it does not have reads as \<^verbatim>\<open>undefined\<close>, here \<open>None\<close>.
\<close>

record pattern_set =
  mobile :: "rx option"
  landline :: "rx option"
  withCountryCode :: "rx option"

text \<open>\<^verbatim>\<open>/^[6-9]\d{9}$/\<close>\<close>

definition IN_mobile :: rx where
  "IN_mobile = Cat [Range (CHR ''6'') (CHR ''9''), Repeat 9 9 Digit]"

text \<open>\<^verbatim>\<open>/^[2-9]\d{7,8}$/\<close>\<close>

definition IN_landline :: rx where
  "IN_landline = Cat [Range (CHR ''2'') (CHR ''9''), Repeat 7 8 Digit]"

text \<open>\<^verbatim>\<open>/^\+91[6-9]\d{9}$/\<close>\<close>

definition IN_withCountryCode :: rx where
  "IN_withCountryCode = Cat [Str ''+91'', Range (CHR ''6'') (CHR ''9''), Repeat 9 9 Digit]"

text \<open>\<^verbatim>\<open>/^\(?([2-9]\d{2})\)?[-. ]?([2-9]\d{2})[-. ]?(\d{4})$/\<close>\<close>

definition US_mobile :: rx where
  "US_mobile = Cat
     [Opt (Str ''(''), Cat [Range (CHR ''2'') (CHR ''9''), Repeat 2 2 Digit], Opt (Str '')''),
      Opt (OneOf ''-. ''), Cat [Range (CHR ''2'') (CHR ''9''), Repeat 2 2 Digit],
      Opt (OneOf ''-. ''), Cat [Repeat 4 4 Digit]]"

text \<open>\<^verbatim>\<open>/^\+1[2-9]\d{2}[2-9]\d{6}$/\<close>\<close>

definition US_withCountryCode :: rx where
  "US_withCountryCode = Cat
     [Str ''+1'', Range (CHR ''2'') (CHR ''9''), Repeat 2 2 Digit,
      Range (CHR ''2'') (CHR ''9''), Repeat 6 6 Digit]"

text \<open>\<^verbatim>\<open>/^(\+44\s?7\d{3}|\(?07\d{3}\)?)\s?\d{3}\s?\d{3}$/\<close>\<close>

definition UK_mobile :: rx where
  "UK_mobile = Cat
     [Alt (Cat [Str ''+44'', Opt Space, Str ''7'', Repeat 3 3 Digit])
          (Cat [Opt (Str ''(''), Str ''07'', Repeat 3 3 Digit, Opt (Str '')'')]),
      Opt Space, Repeat 3 3 Digit, Opt Space, Repeat 3 3 Digit]"

text \<open>\<^verbatim>\<open>/^(\+44\s?[1-9]\d{2}|\(?0[1-9]\d{2}\)?)\s?\d{3}\s?\d{4}$/\<close>\<close>

definition UK_landline :: rx where
  "UK_landline = Cat
     [Alt (Cat [Str ''+44'', Opt Space, Range (CHR ''1'') (CHR ''9''), Repeat 2 2 Digit])
          (Cat [Opt (Str ''(''), Str ''0'', Range (CHR ''1'') (CHR ''9''), Repeat 2 2 Digit,
                Opt (Str '')'')]),
      Opt Space, Repeat 3 3 Digit, Opt Space, Repeat 4 4 Digit]"

text \<open>\<^verbatim>\<open>/^\+[1-9]\d{1,14}$/\<close>\<close>

definition INTERNATIONAL :: rx where
  "INTERNATIONAL = Cat [Str ''+'', Range (CHR ''1'') (CHR ''9''), Repeat 1 14 Digit]"

text \<open>
  What \<^verbatim>\<open>PHONE_PATTERNS[country]\<close> can be: a country's patterns, the bare pattern stored
  under \<^verbatim>\<open>INTERNATIONAL\<close>, or a member the object literal inherits from
  \<^verbatim>\<open>Object.prototype\<close>. All three are objects, hence truthy; only the first has the
  properties \<^verbatim>\<open>mobile\<close>, \<^verbatim>\<open>landline\<close> and \<^verbatim>\<open>withCountryCode\<close>.
\<close>

datatype registry_value =
    Patterns pattern_set
  | Pattern rx
  | Inherited

text \<open>The object literal's own properties, in the order it lists them.\<close>

definition PHONE_PATTERNS :: "(string \<times> registry_value) list" where
  "PHONE_PATTERNS =
     [(''IN'', Patterns \<lparr>mobile = Some IN_mobile, landline = Some IN_landline,
                          withCountryCode = Some IN_withCountryCode\<rparr>),
      (''US'', Patterns \<lparr>mobile = Some US_mobile, landline = None,
                          withCountryCode = Some US_withCountryCode\<rparr>),
      (''UK'', Patterns \<lparr>mobile = Some UK_mobile, landline = Some UK_landline,
                          withCountryCode = None\<rparr>),
      (''INTERNATIONAL'', Pattern INTERNATIONAL)]"

text \<open>
  The property names every object literal inherits from \<^verbatim>\<open>Object.prototype\<close>. Each
  names a function, or the prototype itself for \<^verbatim>\<open>__proto__\<close>.
\<close>

definition Object_prototype_names :: "string list" where
  "Object_prototype_names =
     [''constructor'', ''__defineGetter__'', ''__defineSetter__'', ''hasOwnProperty'',
      ''__lookupGetter__'', ''__lookupSetter__'', ''isPrototypeOf'',
      ''propertyIsEnumerable'', ''toString'', ''valueOf'', ''__proto__'',
      ''toLocaleString'']"

text \<open>
  \<^verbatim>\<open>PHONE_PATTERNS[country]\<close>: an own property first, then the prototype;
  \<open>None\<close> is \<^verbatim>\<open>undefined\<close>.
\<close>

definition lookup_patterns :: "string \<Rightarrow> registry_value option" where
  "lookup_patterns country =
     (case map_of PHONE_PATTERNS country of
        Some v \<Rightarrow> Some v
      | None \<Rightarrow> if country \<in> set Object_prototype_names then Some Inherited else None)"

text \<open>\<^verbatim>\<open>patterns.mobile\<close>, \<^verbatim>\<open>patterns.landline\<close>, \<^verbatim>\<open>patterns.withCountryCode\<close>.\<close>

fun get_mobile :: "registry_value \<Rightarrow> rx option" where
  "get_mobile (Patterns ps) = mobile ps"
| "get_mobile (Pattern r) = None"
| "get_mobile Inherited = None"

fun get_landline :: "registry_value \<Rightarrow> rx option" where
  "get_landline (Patterns ps) = landline ps"
| "get_landline (Pattern r) = None"
| "get_landline Inherited = None"

fun get_withCountryCode :: "registry_value \<Rightarrow> rx option" where
  "get_withCountryCode (Patterns ps) = withCountryCode ps"
| "get_withCountryCode (Pattern r) = None"
| "get_withCountryCode Inherited = None"

text \<open>
  \<^verbatim>\<open>p && p.test(cleaned)\<close>: \<^verbatim>\<open>undefined\<close> when the pattern is missing, the boolean
  of the test otherwise.
\<close>

definition guarded_test :: "rx option \<Rightarrow> string \<Rightarrow> js_value" where
  "guarded_test p cleaned =
     (case p of None \<Rightarrow> JUndefined | Some r \<Rightarrow> JBoolean (test r cleaned))"

text \<open>\<^verbatim>\<open>Object.keys(PHONE_PATTERNS)\<close>: the own property names, in insertion order.\<close>

definition getSupportedCountries :: "string list" where
  "getSupportedCountries = map fst PHONE_PATTERNS"

section \<open>Validation\<close>

record validation_result =
  isValid :: js_value
  error :: "string option"
  formatted :: "string option"
  errorType :: "string option"

text \<open>String helpers: \<^verbatim>\<open>s.startsWith(t)\<close>, \<^verbatim>\<open>s.includes(c)\<close>.\<close>

definition startsWith :: "string \<Rightarrow> string \<Rightarrow> bool" where
  "startsWith s t = (take (length t) s = t)"

definition str_includes :: "string \<Rightarrow> char \<Rightarrow> bool" where
  "str_includes s c = (c \<in> set s)"

text \<open>\<^verbatim>\<open>s.replace(/[\s\-]/g, '')\<close>\<close>

definition remove_spaces_dashes :: "string \<Rightarrow> string" where
  "remove_spaces_dashes s = filter (\<lambda>c. \<not> (is_space c \<or> c = CHR ''-'')) s"

text \<open>\<^verbatim>\<open>s.replace(/[\s\-\(\)]/g, '')\<close>\<close>

definition remove_punctuation :: "string \<Rightarrow> string" where
  "remove_punctuation s =
     filter (\<lambda>c. \<not> (is_space c \<or> c = CHR ''-'' \<or> c = CHR ''('' \<or> c = CHR '')'')) s"

definition formatPhoneNumber :: "string \<Rightarrow> string \<Rightarrow> string" where
  "formatPhoneNumber phoneNumber country =
     (if country = ''IN'' then
        if startsWith phoneNumber ''+91'' then phoneNumber else ''+91'' @ phoneNumber
      else if country = ''US'' then
        if startsWith phoneNumber ''+1'' then phoneNumber
        else if str_includes phoneNumber (CHR ''('') \<and> str_includes phoneNumber (CHR '')'')
          then ''+1'' @ remove_punctuation phoneNumber
        else if length phoneNumber = 10 then ''+1'' @ phoneNumber
        else phoneNumber
      else if country = ''UK'' then
        if startsWith phoneNumber ''+44'' then phoneNumber
        else if startsWith phoneNumber ''0'' then ''+44'' @ drop 1 phoneNumber
        else ''+44'' @ phoneNumber
      else if startsWith phoneNumber ''+'' then phoneNumber else ''+'' @ phoneNumber)"

text \<open>
  The value \<^verbatim>\<open>isValid\<close> holds after the chain on the phone type. It starts as
  \<^verbatim>\<open>false\<close> and stays so for a type that is none of the three.
\<close>

definition decide :: "registry_value \<Rightarrow> string \<Rightarrow> string \<Rightarrow> js_value" where
  "decide patterns type cleaned =
     (if type = ''mobile'' then
        js_or (guarded_test (get_mobile patterns) cleaned)
              (guarded_test (get_withCountryCode patterns) cleaned)
      else if type = ''landline'' then
        (case get_landline patterns of
           Some r \<Rightarrow> JBoolean (test r cleaned)
         | None \<Rightarrow> JBoolean False)
      else if type = ''any'' then
        js_or (js_or (guarded_test (get_mobile patterns) cleaned)
                     (guarded_test (get_landline patterns) cleaned))
              (guarded_test (get_withCountryCode patterns) cleaned)
      else JBoolean False)"

definition validatePhoneNumber :: "js_value \<Rightarrow> string \<Rightarrow> string \<Rightarrow> validation_result" where
  "validatePhoneNumber phoneNumber country type =
     (case phoneNumber of
        JString s \<Rightarrow>
          if s = [] then
            \<lparr>isValid = JBoolean False,
             error = Some ''Phone number is required and must be a string'',
             formatted = None, errorType = Some ''required''\<rparr>
          else
            let cleaned = remove_spaces_dashes s in
            (case lookup_patterns country of
               None \<Rightarrow>
                 \<lparr>isValid = JBoolean False,
                  error = Some (''Unsupported country code: '' @ country),
                  formatted = None, errorType = Some ''invalidFormat''\<rparr>
             | Some patterns \<Rightarrow>
                 let valid = decide patterns type cleaned in
                 if truthy valid then
                   \<lparr>isValid = valid, error = None,
                    formatted = Some (formatPhoneNumber cleaned country), errorType = None\<rparr>
                 else
                   \<lparr>isValid = valid,
                    error = Some (''Invalid '' @ type @ '' phone number for '' @ country),
                    formatted = None, errorType = Some ''invalidFormat''\<rparr>)
      | _ \<Rightarrow>
          \<lparr>isValid = JBoolean False,
           error = Some ''Phone number is required and must be a string'',
           formatted = None, errorType = Some ''required''\<rparr>)"

section \<open>Rendering\<close>

text \<open>
  \<^verbatim>\<open>countryCodes[country]\<close> of \<^verbatim>\<open>extractNationalNumber\<close>. For a country that names a
  member inherited from \<^verbatim>\<open>Object.prototype\<close> the lookup gives a function, and the
  prefix test then compares the phone number with that function's source text; the
  table stands for the lookup on every phone number that does not begin with such a
  text.
\<close>

definition countryCodes :: "(string \<times> string) list" where
  "countryCodes = [(''IN'', ''+91''), (''US'', ''+1''), (''UK'', ''+44'')]"

definition extractNationalNumber :: "string \<Rightarrow> string \<Rightarrow> string" where
  "extractNationalNumber phoneNumber country =
     (case map_of countryCodes country of
        Some countryCode \<Rightarrow>
          if startsWith phoneNumber countryCode then drop (length countryCode) phoneNumber
          else if country = ''US'' \<and> str_includes phoneNumber (CHR ''('')
                  \<and> str_includes phoneNumber (CHR '')'')
            then remove_punctuation phoneNumber
          else phoneNumber
      | None \<Rightarrow>
          if country = ''US'' \<and> str_includes phoneNumber (CHR ''('')
             \<and> str_includes phoneNumber (CHR '')'')
            then remove_punctuation phoneNumber
          else phoneNumber)"

text \<open>\<^verbatim>\<open>s.substring(a, b)\<close> for \<open>a \<le> b\<close>, which every call has, and \<^verbatim>\<open>s.substring(a)\<close>.\<close>

definition substring :: "string \<Rightarrow> nat \<Rightarrow> nat \<Rightarrow> string" where
  "substring s a b = take (b - a) (drop a s)"

definition substring_from :: "string \<Rightarrow> nat \<Rightarrow> string" where
  "substring_from s a = drop a s"

definition formatPhoneNumberAuto :: "string \<Rightarrow> string \<Rightarrow> string" where
  "formatPhoneNumberAuto phoneNumber country =
     (let nationalNumber = extractNationalNumber phoneNumber country in
      if country = ''IN'' then ''+91 '' @ nationalNumber
      else if country = ''US'' then
        if length nationalNumber = 10 then
          ''+1 ('' @ substring nationalNumber 0 3 @ '') '' @ substring nationalNumber 3 6
            @ ''-'' @ substring_from nationalNumber 6
        else phoneNumber
      else if country = ''UK'' then
        if length nationalNumber = 10 then
          ''+44 '' @ substring nationalNumber 0 4 @ '' '' @ substring nationalNumber 4 7
            @ '' '' @ substring_from nationalNumber 7
        else phoneNumber
      else phoneNumber)"

text \<open>
  The \<^verbatim>\<open>customFormatter\<close> argument: a function, which may return any value or throw,
  or a value that is not a function (\<^verbatim>\<open>null\<close> by default).
\<close>

datatype custom_formatter =
    NotAFunction js_value
  | Function "string \<Rightarrow> string \<Rightarrow> fault + js_value"

definition formatPhoneNumberWithOptions ::
  "string \<Rightarrow> string \<Rightarrow> string \<Rightarrow> custom_formatter \<Rightarrow> fault + js_value" where
  "formatPhoneNumberWithOptions phoneNumber country format customFormatter =
     (if phoneNumber = [] then Inr (JString phoneNumber)
      else
        (case (format = ''custom'', customFormatter) of
           (True, Function f) \<Rightarrow> f phoneNumber country
         | _ \<Rightarrow>
             let nationalNumber = extractNationalNumber phoneNumber country in
             if format = ''international'' then Inr (JString phoneNumber)
             else if format = ''national'' then Inr (JString nationalNumber)
             else if format = ''raw'' then Inr (JString (remove_punctuation phoneNumber))
             else Inr (JString (formatPhoneNumberAuto phoneNumber country))))"


section \<open>Format metadata\<close>

record format_entry =
  mobile_placeholder :: string
  landline_placeholder :: string
  examples :: "(string \<times> string list) list"

definition FORMAT_PLACEHOLDERS :: "(string \<times> format_entry) list" where
  "FORMAT_PLACEHOLDERS =
     [(''IN'', \<lparr>mobile_placeholder = ''9876543210'', landline_placeholder = ''02212345678'',
                examples = [(''mobile'', [''9876543210'', ''+919876543210'']),
                            (''landline'', [''02212345678'', ''+912212345678''])]\<rparr>),
      (''US'', \<lparr>mobile_placeholder = ''(555) 234-5678'',
                landline_placeholder = ''(555) 123-4567'',
                examples = [(''mobile'', [''(555) 234-5678'', ''555-234-5678'', ''5552345678'',
                                          ''+15552345678'']),
                            (''landline'', [''(555) 123-4567'', ''555-123-4567'', ''5551234567'',
                                            ''+15551234567''])]\<rparr>),
      (''UK'', \<lparr>mobile_placeholder = ''07123456789'', landline_placeholder = ''02012345678'',
                examples = [(''mobile'', [''07123456789'', ''+447123456789'']),
                            (''landline'', [''02012345678'', ''+442012345678''])]\<rparr>)]"

text \<open>The examples list the table holds for a country and a phone type, if any.\<close>

definition stored_examples :: "string \<Rightarrow> string \<Rightarrow> string list option" where
  "stored_examples country type =
     (case map_of FORMAT_PLACEHOLDERS country of
        None \<Rightarrow> None
      | Some entry \<Rightarrow> map_of (examples entry) type)"

section \<open>Facts about the validator\<close>

lemma decide_truthy: "truthy (decide p t s) \<Longrightarrow> decide p t s = JBoolean True"
  by (auto simp: decide_def js_or_def guarded_test_def split: option.splits if_splits)

lemma decide_other_type:
  "t \<noteq> ''mobile'' \<Longrightarrow> t \<noteq> ''landline'' \<Longrightarrow> t \<noteq> ''any'' \<Longrightarrow> decide p t s = JBoolean False"
  by (simp add: decide_def)

lemma validate_empty:
  "validatePhoneNumber (JString []) c t =
     \<lparr>isValid = JBoolean False,
      error = Some ''Phone number is required and must be a string'',
      formatted = None, errorType = Some ''required''\<rparr>"
  by (simp add: validatePhoneNumber_def)

lemma validate_not_string:
  "(\<And>s. v \<noteq> JString s) \<Longrightarrow> validatePhoneNumber v c t =
     \<lparr>isValid = JBoolean False,
      error = Some ''Phone number is required and must be a string'',
      formatted = None, errorType = Some ''required''\<rparr>"
  by (cases v) (auto simp: validatePhoneNumber_def)

lemma validate_string:
  "s \<noteq> [] \<Longrightarrow> validatePhoneNumber (JString s) c t =
     (case lookup_patterns c of
        None \<Rightarrow> \<lparr>isValid = JBoolean False,
                  error = Some (''Unsupported country code: '' @ c),
                  formatted = None, errorType = Some ''invalidFormat''\<rparr>
      | Some p \<Rightarrow>
          if truthy (decide p t (remove_spaces_dashes s)) then
            \<lparr>isValid = JBoolean True, error = None,
             formatted = Some (formatPhoneNumber (remove_spaces_dashes s) c), errorType = None\<rparr>
          else
            \<lparr>isValid = decide p t (remove_spaces_dashes s),
             error = Some (''Invalid '' @ t @ '' phone number for '' @ c),
             formatted = None, errorType = Some ''invalidFormat''\<rparr>)"
  by (auto simp: validatePhoneNumber_def Let_def decide_truthy split: option.splits)

lemma lookup_US:
  "lookup_patterns ''US'' =
     Some (Patterns \<lparr>mobile = Some US_mobile, landline = None,
                     withCountryCode = Some US_withCountryCode\<rparr>)"
  by code_simp

lemma lookup_INTERNATIONAL: "lookup_patterns ''INTERNATIONAL'' = Some (Pattern INTERNATIONAL)"
  by code_simp

lemma lookup_supported:
  "country \<in> set getSupportedCountries \<Longrightarrow> \<exists>p. lookup_patterns country = Some p"
  by (auto simp: getSupportedCountries_def PHONE_PATTERNS_def lookup_patterns_def)

lemma US_landline_never:
  "isValid (validatePhoneNumber v ''US'' ''landline'') = JBoolean False"
  by (cases v) (simp_all add: validatePhoneNumber_def lookup_US decide_def Let_def)

lemma INTERNATIONAL_never:
  "isValid (validatePhoneNumber v ''INTERNATIONAL'' t) \<noteq> JBoolean True"
  by (cases v)
     (simp_all add: validatePhoneNumber_def lookup_INTERNATIONAL decide_def Let_def js_or_def
        guarded_test_def)






lemma extract_UK:
  "extractNationalNumber p ''UK'' = (if startsWith p ''+44'' then drop 3 p else p)"
  by (simp add: extractNationalNumber_def countryCodes_def numeral_3_eq_3)

subsection \<open>The stored examples, one pair at a time\<close>

lemma stored_IN_mobile:
  "stored_examples ''IN'' ''mobile'' = Some [''9876543210'', ''+919876543210'']"
  by code_simp

lemma stored_US_mobile:
  "stored_examples ''US'' ''mobile'' =
     Some [''(555) 234-5678'', ''555-234-5678'', ''5552345678'', ''+15552345678'']"
  by code_simp

lemma stored_UK_mobile:
  "stored_examples ''UK'' ''mobile'' = Some [''07123456789'', ''+447123456789'']"
  by code_simp

lemma stored_UK_landline:
  "stored_examples ''UK'' ''landline'' = Some [''02012345678'', ''+442012345678'']"
  by code_simp

lemma IN_mobile_examples:
  assumes "x \<in> set [''9876543210'', ''+919876543210'']"
  shows "isValid (validatePhoneNumber (JString x) ''IN'' ''mobile'') = JBoolean True"
proof -
  from assms consider "x = ''9876543210''" | "x = ''+919876543210''" by auto
  then show ?thesis
  proof cases
    case 1
    show ?thesis unfolding 1 by code_simp
  next
    case 2
    show ?thesis unfolding 2 by code_simp
  qed
qed

lemma US_mobile_examples:
  assumes "x \<in> set [''(555) 234-5678'', ''555-234-5678'', ''5552345678'', ''+15552345678'']"
  shows "isValid (validatePhoneNumber (JString x) ''US'' ''mobile'') = JBoolean True"
proof -
  from assms consider "x = ''(555) 234-5678''" | "x = ''555-234-5678''"
    | "x = ''5552345678''" | "x = ''+15552345678''" by auto
  then show ?thesis
  proof cases
    case 1
    show ?thesis unfolding 1 by code_simp
  next
    case 2
    show ?thesis unfolding 2 by code_simp
  next
    case 3
    show ?thesis unfolding 3 by code_simp
  next
    case 4
    show ?thesis unfolding 4 by code_simp
  qed
qed

lemma UK_mobile_examples:
  assumes "x \<in> set [''07123456789'', ''+447123456789'']"
  shows "isValid (validatePhoneNumber (JString x) ''UK'' ''mobile'') = JBoolean True"
proof -
  from assms consider "x = ''07123456789''" | "x = ''+447123456789''" by auto
  then show ?thesis
  proof cases
    case 1
    show ?thesis unfolding 1 by code_simp
  next
    case 2
    show ?thesis unfolding 2 by code_simp
  qed
qed

lemma UK_landline_examples:
  assumes "x \<in> set [''02012345678'', ''+442012345678'']"
  shows "isValid (validatePhoneNumber (JString x) ''UK'' ''landline'') = JBoolean True"
proof -
  from assms consider "x = ''02012345678''" | "x = ''+442012345678''" by auto
  then show ?thesis
  proof cases
    case 1
    show ?thesis unfolding 1 by code_simp
  next
    case 2
    show ?thesis unfolding 2 by code_simp
  qed
qed

text \<open>
  Further valid results whose formatted text is not a dial code followed by digits: a
  UK mobile in parentheses, and a US mobile with an opening parenthesis only.
\<close>

lemma further_noncanonical_results:
  "validatePhoneNumber (JString ''(07123)456789'') ''UK'' ''mobile'' =
     \<lparr>isValid = JBoolean True, error = None, formatted = Some ''+44(07123)456789'',
      errorType = None\<rparr> \<and>
   validatePhoneNumber (JString ''(5552345678'') ''US'' ''mobile'' =
     \<lparr>isValid = JBoolean True, error = None, formatted = Some ''(5552345678'',
      errorType = None\<rparr>"
  by code_simp

text \<open>
  A US mobile with parentheses and a dot validates, keeps the dot in its formatted text
  and in the raw rendering of it, and that rendering does not validate again.
\<close>

lemma US_dotted_raw_not_revalidated:
  "validatePhoneNumber (JString ''(555) 234.5678'') ''US'' ''mobile'' =
     \<lparr>isValid = JBoolean True, error = None, formatted = Some ''+1555234.5678'',
      errorType = None\<rparr> \<and>
   formatPhoneNumberWithOptions ''+1555234.5678'' ''US'' ''raw'' (NotAFunction JNull) =
     Inr (JString ''+1555234.5678'') \<and>
   validatePhoneNumber (JString ''+1555234.5678'') ''US'' ''mobile'' =
     \<lparr>isValid = JBoolean False, error = Some ''Invalid mobile phone number for US'',
      formatted = None, errorType = Some ''invalidFormat''\<rparr>"
  by code_simp

section \<open>The claims\<close>

subsection \<open>C1: the stored examples\<close>

text \<open>
  C1 at the pair it names, Indian landlines. The table lists two examples for that pair,
  and the validator rejects both as Indian landlines: the landline pattern
  \<^verbatim>\<open>/^[2-9]\d{7,8}$/\<close> takes neither the leading \<^verbatim>\<open>0\<close> of the first nor the
  \<^verbatim>\<open>+91\<close> prefix of the second, and the landline branch tests no other pattern.
\<close>

theorem IN_landline_examples_rejected:
  "stored_examples ''IN'' ''landline'' = Some [''02212345678'', ''+912212345678''] \<and>
   validatePhoneNumber (JString ''02212345678'') ''IN'' ''landline'' =
     \<lparr>isValid = JBoolean False, error = Some ''Invalid landline phone number for IN'',
      formatted = None, errorType = Some ''invalidFormat''\<rparr> \<and>
   validatePhoneNumber (JString ''+912212345678'') ''IN'' ''landline'' =
     \<lparr>isValid = JBoolean False, error = Some ''Invalid landline phone number for IN'',
      formatted = None, errorType = Some ''invalidFormat''\<rparr>"
  by code_simp

subsection \<open>C2: the custom mode without a function\<close>

text \<open>
  C2, as the code has it. With the mode \<^verbatim>\<open>custom\<close> and a formatter argument that is not
  a function, rendering signals nothing: it returns, as an ordinary result, exactly what
  the mode \<^verbatim>\<open>auto\<close> returns for the same number and country.
\<close>

theorem custom_without_function_is_auto:
  "formatPhoneNumberWithOptions p c ''custom'' (NotAFunction v) =
     formatPhoneNumberWithOptions p c ''auto'' (NotAFunction v) \<and>
   formatPhoneNumberWithOptions p c ''custom'' (NotAFunction v) =
     Inr (JString (if p = [] then p else formatPhoneNumberAuto p c))"
  by (simp add: formatPhoneNumberWithOptions_def)

text \<open>
  C2 as it is written fails: the mode \<^verbatim>\<open>custom\<close> with the default \<^verbatim>\<open>null\<close> formatter
  renders an Indian number in the layout of the mode \<^verbatim>\<open>auto\<close>, and no fault is raised.
\<close>

theorem custom_without_function_example:
  "formatPhoneNumberWithOptions ''+919876543210'' ''IN'' ''custom'' (NotAFunction JNull) =
     Inr (JString ''+91 9876543210'') \<and>
   formatPhoneNumberWithOptions ''+919876543210'' ''IN'' ''auto'' (NotAFunction JNull) =
     Inr (JString ''+91 9876543210'')"
  by code_simp

subsection \<open>C3: a valid result and the canonical form\<close>

text \<open>
  C3 at a US number written with dots. The US mobile pattern accepts the dots, the
  cleaning step and the formatting step remove none of them, and the length is not 10:
  the result is valid, its error is \<^verbatim>\<open>null\<close>, and its formatted text is the input
  itself, which does not start with \<^verbatim>\<open>+1\<close> and is not made of digits.
\<close>

theorem US_dotted_number_not_canonical:
  "validatePhoneNumber (JString ''555.234.5678'') ''US'' ''mobile'' =
     \<lparr>isValid = JBoolean True, error = None, formatted = Some ''555.234.5678'',
      errorType = None\<rparr> \<and>
   \<not> startsWith ''555.234.5678'' ''+1'' \<and> \<not> list_all is_digit ''555.234.5678''"
  by code_simp

subsection \<open>C4: the supported countries\<close>

text \<open>
  C4 on the code. \<^verbatim>\<open>getSupportedCountries\<close> returns the four keys of the registry:
  the three countries and \<^verbatim>\<open>INTERNATIONAL\<close>, a key under which no input of any phone
  type validates.
\<close>

theorem supported_countries_has_INTERNATIONAL:
  "getSupportedCountries = [''IN'', ''US'', ''UK'', ''INTERNATIONAL''] \<and>
   set getSupportedCountries \<noteq> {''IN'', ''US'', ''UK''} \<and>
   isValid (validatePhoneNumber v ''INTERNATIONAL'' t) \<noteq> JBoolean True"
proof (intro conjI)
  show "getSupportedCountries = [''IN'', ''US'', ''UK'', ''INTERNATIONAL'']"
    by code_simp
  show "set getSupportedCountries \<noteq> {''IN'', ''US'', ''UK''}"
    by code_simp
  show "isValid (validatePhoneNumber v ''INTERNATIONAL'' t) \<noteq> JBoolean True"
    by (rule INTERNATIONAL_never)
qed

subsection \<open>C5: the shape of the result\<close>

text \<open>
  C5 at a UK mobile number that matches no pattern. The UK entry has no
  \<^verbatim>\<open>withCountryCode\<close> pattern, so the chain \<^verbatim>\<open>false || undefined\<close> leaves
  \<^verbatim>\<open>isValid\<close> as \<^verbatim>\<open>undefined\<close>, not a boolean. The landline branch, which ends in
  \<^verbatim>\<open>: false\<close>, gives \<^verbatim>\<open>false\<close> on the same input.
\<close>

theorem UK_mobile_rejection_is_undefined:
  "validatePhoneNumber (JString ''12345'') ''UK'' ''mobile'' =
     \<lparr>isValid = JUndefined, error = Some ''Invalid mobile phone number for UK'',
      formatted = None, errorType = Some ''invalidFormat''\<rparr> \<and>
   isValid (validatePhoneNumber (JString ''12345'') ''UK'' ''landline'') = JBoolean False"
  by code_simp

subsection \<open>C6: a country the registry does not have\<close>

text \<open>
  C6 at the country \<^verbatim>\<open>constructor\<close>. It is no key of the registry, but the lookup
  finds the member of that name that every object inherits, so the branch for an
  unsupported country is not taken: the error names the phone type, and \<^verbatim>\<open>isValid\<close>
  is \<^verbatim>\<open>undefined\<close>.
\<close>

theorem inherited_name_not_unsupported:
  "''constructor'' \<notin> set getSupportedCountries \<and>
   validatePhoneNumber (JString ''9876543210'') ''constructor'' ''mobile'' =
     \<lparr>isValid = JUndefined, error = Some ''Invalid mobile phone number for constructor'',
      formatted = None, errorType = Some ''invalidFormat''\<rparr>"
  by code_simp

subsection \<open>C7: validating the raw rendering again\<close>

text \<open>
  C7 at an Indian landline number of eight digits. It validates as an Indian landline
  with the formatted text \<^verbatim>\<open>+9122123456\<close>; the mode \<^verbatim>\<open>raw\<close> renders that text
  unchanged; and the rendered text does not validate as an Indian landline, since the
  landline pattern takes no \<^verbatim>\<open>+91\<close> prefix.
\<close>

theorem IN_landline_raw_not_revalidated:
  "validatePhoneNumber (JString ''22123456'') ''IN'' ''landline'' =
     \<lparr>isValid = JBoolean True, error = None, formatted = Some ''+9122123456'',
      errorType = None\<rparr> \<and>
   formatPhoneNumberWithOptions ''+9122123456'' ''IN'' ''raw'' (NotAFunction JNull) =
     Inr (JString ''+9122123456'') \<and>
   validatePhoneNumber (JString ''+9122123456'') ''IN'' ''landline'' =
     \<lparr>isValid = JBoolean False, error = Some ''Invalid landline phone number for IN'',
      formatted = None, errorType = Some ''invalidFormat''\<rparr>"
  by code_simp

subsection \<open>C8: formatPhone\<close>



subsection \<open>C9: the UK layout of the mode auto\<close>

text \<open>
  C9. Rendering for the UK in the mode \<^verbatim>\<open>auto\<close>: when the national number (the input
  without a leading \<^verbatim>\<open>+44\<close>) has length 10, as every national number of ten digits
  has, the result is \<^verbatim>\<open>+44\<close>, a space, its first four characters, a space, the next
  three, a space, and the last three; when it has another length the result is the
  input; and \<^verbatim>\<open>+447123456789\<close> renders as \<^verbatim>\<open>+44 7123 456 789\<close>.
\<close>

theorem auto_UK_layout:
  "(length (extractNationalNumber p ''UK'') = 10 \<longrightarrow>
      formatPhoneNumberWithOptions p ''UK'' ''auto'' fmt =
        Inr (JString (''+44 '' @ take 4 (extractNationalNumber p ''UK'') @ '' ''
                        @ take 3 (drop 4 (extractNationalNumber p ''UK'')) @ '' ''
                        @ drop 7 (extractNationalNumber p ''UK'')))) \<and>
   (length (extractNationalNumber p ''UK'') \<noteq> 10 \<longrightarrow>
      formatPhoneNumberWithOptions p ''UK'' ''auto'' fmt = Inr (JString p)) \<and>
   formatPhoneNumberWithOptions ''+447123456789'' ''UK'' ''auto'' fmt =
     Inr (JString ''+44 7123 456 789'')"
proof (intro conjI impI)
  assume n: "length (extractNationalNumber p ''UK'') = 10"
  then have "p \<noteq> []"
    by (auto simp: extract_UK split: if_splits)
  with n show "formatPhoneNumberWithOptions p ''UK'' ''auto'' fmt =
        Inr (JString (''+44 '' @ take 4 (extractNationalNumber p ''UK'') @ '' ''
                        @ take 3 (drop 4 (extractNationalNumber p ''UK'')) @ '' ''
                        @ drop 7 (extractNationalNumber p ''UK'')))"
    by (cases fmt)
       (simp_all add: formatPhoneNumberWithOptions_def formatPhoneNumberAuto_def Let_def
          substring_def substring_from_def)
next
  assume "length (extractNationalNumber p ''UK'') \<noteq> 10"
  then show "formatPhoneNumberWithOptions p ''UK'' ''auto'' fmt = Inr (JString p)"
    by (cases fmt)
       (simp_all add: formatPhoneNumberWithOptions_def formatPhoneNumberAuto_def Let_def)
next
  show "formatPhoneNumberWithOptions ''+447123456789'' ''UK'' ''auto'' fmt =
     Inr (JString ''+44 7123 456 789'')"
    by code_simp
qed

text \<open>
  The theorem at a UK landline in canonical form and at a UK mobile that kept its
  parentheses, whose national number has 13 characters.
\<close>

theorem auto_UK_layout_witness:
  "length (extractNationalNumber ''+442012345678'' ''UK'') = 10 \<and>
   formatPhoneNumberWithOptions ''+442012345678'' ''UK'' ''auto'' (NotAFunction JNull) =
     Inr (JString ''+44 2012 345 678'') \<and>
   length (extractNationalNumber ''+44(07123)456789'' ''UK'') \<noteq> 10 \<and>
   formatPhoneNumberWithOptions ''+44(07123)456789'' ''UK'' ''auto'' (NotAFunction JNull) =
     Inr (JString ''+44(07123)456789'')"
proof -
  have a: "extractNationalNumber ''+442012345678'' ''UK'' = ''2012345678''"
    by code_simp
  have b: "extractNationalNumber ''+44(07123)456789'' ''UK'' = ''(07123)456789''"
    by code_simp
  show ?thesis
    using auto_UK_layout [of "''+442012345678''" "NotAFunction JNull"]
      auto_UK_layout [of "''+44(07123)456789''" "NotAFunction JNull"]
    by (simp add: a b)
qed

subsection \<open>C10: a phone type that is none of the three\<close>

text \<open>
  C10, as the code has it. For every string that is not empty, every key of the
  registry and every phone type other than \<^verbatim>\<open>mobile\<close>, \<^verbatim>\<open>landline\<close> and \<^verbatim>\<open>any\<close>, the
  result is invalid with \<^verbatim>\<open>isValid\<close> \<^verbatim>\<open>false\<close>, no formatted text, the error type
  \<^verbatim>\<open>invalidFormat\<close> and the error \<^verbatim>\<open>Invalid <type> phone number for <country>\<close>.
\<close>

theorem unknown_type_rejected:
  assumes "s \<noteq> []" and "country \<in> set getSupportedCountries"
    and "type \<notin> {''mobile'', ''landline'', ''any''}"
  shows "validatePhoneNumber (JString s) country type =
           \<lparr>isValid = JBoolean False,
            error = Some (''Invalid '' @ type @ '' phone number for '' @ country),
            formatted = None, errorType = Some ''invalidFormat''\<rparr>"
proof -
  from assms(2) obtain p where "lookup_patterns country = Some p"
    using lookup_supported by blast
  moreover from assms(3) have "decide p type (remove_spaces_dashes s) = JBoolean False"
    by (simp add: decide_other_type)
  ultimately show ?thesis
    using assms(1) by (simp add: validate_string)
qed

text \<open>The theorem at an Indian mobile number and the phone type \<^verbatim>\<open>Mobile\<close>.\<close>

theorem unknown_type_rejected_witness:
  "''98765 43210'' \<noteq> [] \<and> ''IN'' \<in> set getSupportedCountries \<and>
   ''Mobile'' \<notin> {''mobile'', ''landline'', ''any''} \<and>
   validatePhoneNumber (JString ''98765 43210'') ''IN'' ''Mobile'' =
     \<lparr>isValid = JBoolean False, error = Some ''Invalid Mobile phone number for IN'',
      formatted = None, errorType = Some ''invalidFormat''\<rparr>"
proof -
  have a: "''IN'' \<in> set getSupportedCountries"
    by code_simp
  have b: "''Mobile'' \<notin> {''mobile'', ''landline'', ''any''}"
    by simp
  show ?thesis
    using unknown_type_rejected [of "''98765 43210''" "''IN''" "''Mobile''"] a b by simp
qed

text \<open>
  C10 as it is written fails at the empty string: the first test of the validator
  answers it, with the error type \<^verbatim>\<open>required\<close>, before the phone type is looked at.
\<close>

theorem unknown_type_empty_string:
  "validatePhoneNumber (JString []) ''IN'' ''Mobile'' =
     \<lparr>isValid = JBoolean False,
      error = Some ''Phone number is required and must be a string'',
      formatted = None, errorType = Some ''required''\<rparr> \<and>
   validatePhoneNumber (JString []) ''IN'' ''Mobile'' \<noteq>
     \<lparr>isValid = JBoolean False, error = Some ''Invalid Mobile phone number for IN'',
      formatted = None, errorType = Some ''invalidFormat''\<rparr>"
  by (simp add: validate_empty)

section \<open>Further properties\<close>

text \<open>
  X1. A country that is neither a key of the registry nor a name inherited from
  \<^verbatim>\<open>Object.prototype\<close> is reported as unsupported, for every string that is not empty
  and every phone type.
\<close>

theorem unsupported_country:
  assumes "s \<noteq> []" and "country \<notin> set getSupportedCountries"
    and "country \<notin> set Object_prototype_names"
  shows "validatePhoneNumber (JString s) country type =
           \<lparr>isValid = JBoolean False, error = Some (''Unsupported country code: '' @ country),
            formatted = None, errorType = Some ''invalidFormat''\<rparr>"
proof -
  from assms(2) have "map_of PHONE_PATTERNS country = None"
    by (simp add: getSupportedCountries_def map_of_eq_None_iff)
  with assms(3) have "lookup_patterns country = None"
    by (simp add: lookup_patterns_def)
  with assms(1) show ?thesis
    by (simp add: validate_string)
qed

text \<open>The theorem at the country \<^verbatim>\<open>XX\<close>.\<close>

theorem unsupported_country_witness:
  "''1234567890'' \<noteq> [] \<and> ''XX'' \<notin> set getSupportedCountries \<and>
   ''XX'' \<notin> set Object_prototype_names \<and>
   validatePhoneNumber (JString ''1234567890'') ''XX'' ''mobile'' =
     \<lparr>isValid = JBoolean False, error = Some ''Unsupported country code: XX'',
      formatted = None, errorType = Some ''invalidFormat''\<rparr>"
proof -
  have a: "''XX'' \<notin> set getSupportedCountries"
    by code_simp
  have b: "''XX'' \<notin> set Object_prototype_names"
    by code_simp
  show ?thesis
    using unsupported_country [of "''1234567890''" "''XX''" "''mobile''"] a b by simp
qed

text \<open>
  X2. In every result of the validator, \<^verbatim>\<open>isValid\<close> is \<^verbatim>\<open>true\<close> exactly when the error
  is \<^verbatim>\<open>null\<close>, exactly when the error type is \<^verbatim>\<open>null\<close>, and exactly when there is a
  formatted text.
\<close>

theorem validate_fields_agree:
  "(isValid (validatePhoneNumber v c t) = JBoolean True) =
     (error (validatePhoneNumber v c t) = None) \<and>
   (errorType (validatePhoneNumber v c t) = None) =
     (isValid (validatePhoneNumber v c t) = JBoolean True) \<and>
   (formatted (validatePhoneNumber v c t) \<noteq> None) =
     (isValid (validatePhoneNumber v c t) = JBoolean True)"
proof (cases "\<exists>s. v = JString s \<and> s \<noteq> []")
  case True
  then obtain s where "v = JString s" "s \<noteq> []" by blast
  then show ?thesis
    by (cases "lookup_patterns c") (auto simp: validate_string)
next
  case False
  then have "validatePhoneNumber v c t =
     \<lparr>isValid = JBoolean False,
      error = Some ''Phone number is required and must be a string'',
      formatted = None, errorType = Some ''required''\<rparr>"
    by (cases v) (auto simp: validatePhoneNumber_def)
  then show ?thesis by simp
qed

text \<open>
  X3. With the mode \<^verbatim>\<open>custom\<close> and a function, rendering a text that is not empty is
  the function's own outcome on the text and the country: its value, or its fault.
\<close>

theorem custom_function_verbatim:
  "p \<noteq> [] \<Longrightarrow> formatPhoneNumberWithOptions p c ''custom'' (Function f) = f p c"
  by (simp add: formatPhoneNumberWithOptions_def)

text \<open>The theorem at the formatter of the README, and at one that throws.\<close>

theorem custom_function_verbatim_witness:
  "''+919876543210'' \<noteq> [] \<and>
   formatPhoneNumberWithOptions ''+919876543210'' ''IN'' ''custom''
       (Function (\<lambda>phone country. Inr (JString (''['' @ country @ ''] '' @ phone)))) =
     Inr (JString ''[IN] +919876543210'') \<and>
   formatPhoneNumberWithOptions ''+919876543210'' ''IN'' ''custom''
       (Function (\<lambda>phone country. Inl (Thrown JNull))) = Inl (Thrown JNull)"
  using custom_function_verbatim
      [of "''+919876543210''" "''IN''" "\<lambda>phone country. Inr (JString (''['' @ country @ ''] '' @ phone))"]
    custom_function_verbatim [of "''+919876543210''" "''IN''" "\<lambda>phone country. Inl (Thrown JNull)"]
  by simp

text \<open>
  X4. The mode \<^verbatim>\<open>international\<close> returns its input, so rendering its own result again
  changes nothing.
\<close>

theorem international_mode_identity:
  "formatPhoneNumberWithOptions p c ''international'' fmt = Inr (JString p)"
  by (cases fmt) (simp_all add: formatPhoneNumberWithOptions_def)

text \<open>
  X5. Every example the table lists for Indian mobiles, US mobiles, UK mobiles and UK
  landlines validates under its own country and phone type. The US entry of the
  registry has no landline pattern, so nothing validates as a US landline.
\<close>

theorem listed_examples_validate:
  "((c, t) \<in> {(''IN'', ''mobile''), (''US'', ''mobile''), (''UK'', ''mobile''),
               (''UK'', ''landline'')} \<and>
    stored_examples c t = Some xs \<and> x \<in> set xs \<longrightarrow>
      isValid (validatePhoneNumber (JString x) c t) = JBoolean True) \<and>
   isValid (validatePhoneNumber v ''US'' ''landline'') = JBoolean False"
proof (intro conjI impI)
  assume a: "(c, t) \<in> {(''IN'', ''mobile''), (''US'', ''mobile''), (''UK'', ''mobile''),
                        (''UK'', ''landline'')} \<and>
             stored_examples c t = Some xs \<and> x \<in> set xs"
  then have ex: "stored_examples c t = Some xs" and x: "x \<in> set xs"
    by simp_all
  from a consider "c = ''IN'' \<and> t = ''mobile''" | "c = ''US'' \<and> t = ''mobile''"
    | "c = ''UK'' \<and> t = ''mobile''" | "c = ''UK'' \<and> t = ''landline''"
    by auto
  then show "isValid (validatePhoneNumber (JString x) c t) = JBoolean True"
  proof cases
    case 1
    with ex x show ?thesis
      using IN_mobile_examples [of x] by (simp add: stored_IN_mobile)
  next
    case 2
    with ex x show ?thesis
      using US_mobile_examples [of x] by (simp add: stored_US_mobile)
  next
    case 3
    with ex x show ?thesis
      using UK_mobile_examples [of x] by (simp add: stored_UK_mobile)
  next
    case 4
    with ex x show ?thesis
      using UK_landline_examples [of x] by (simp add: stored_UK_landline)
  qed
next
  show "isValid (validatePhoneNumber v ''US'' ''landline'') = JBoolean False"
    by (rule US_landline_never)
qed

text \<open>The theorem at the second Indian mobile example and at a US landline example.\<close>

theorem listed_examples_validate_witness:
  "stored_examples ''IN'' ''mobile'' = Some [''9876543210'', ''+919876543210''] \<and>
   isValid (validatePhoneNumber (JString ''+919876543210'') ''IN'' ''mobile'') = JBoolean True \<and>
   isValid (validatePhoneNumber (JString ''555-123-4567'') ''US'' ''landline'') = JBoolean False"
  using listed_examples_validate
    [of "''IN''" "''mobile''" "[''9876543210'', ''+919876543210'']" "''+919876543210''"
        "JString ''555-123-4567''"]
  by (simp add: stored_IN_mobile)

end
